theory Spec2Isabelle
  imports Main
begin

section \<open>The conversion endpoint of convertfile.me\<close>

text \<open>
  The backend is one Flask module: the handler \<open>convert\<close> of \<open>POST /convert\<close> and the
  helper \<open>convert_to_jpeg\<close>. Both are embedded below as functions on an explicit world
  (the file table and the list of calls made to the image library). An exception of the
  source is the left summand of the result; the world is returned beside it, since a
  raise does not undo what was written before it.

  Three things lie outside the module and are taken as follows.
  \<^item> Paths are strings and the file table is a map from path strings to contents; two
    different strings name two different files, and relative paths mean the same file
    for every call of one request.
  \<^item> Whether a path can be opened for writing is decided by the environment: the
    world carries the predicate \<open>writable\<close>, which the program never changes.
  \<^item> The image library is a parameter, the record \<open>codec\<close>: what \<open>Image.open\<close> makes
    of a file's bytes, what \<open>convert("RGB")\<close> does to the pixel data, and what the JPEG
    writer makes of an image. Each of the first and the last may raise.
  Characters are the 8-bit characters of HOL; \<open>str.lower\<close> is modelled on ASCII letters.
\<close>

subsection \<open>Data\<close>

type_synonym bytes = "nat list"
type_synonym path = string

text \<open>The uploaded part, as \<open>werkzeug\<close>'s \<open>FileStorage\<close>: a client filename and the bytes.\<close>

record file_storage =
  filename :: string
  content :: bytes

text \<open>\<open>request.files\<close>: the multipart fields that carry a file, by field name.\<close>

record request =
  files :: "string \<rightharpoonup> file_storage"

text \<open>A decoded image: its colour mode, as the string \<open>img.mode\<close>, and its pixel data.\<close>

record image =
  mode :: string
  pixels :: "nat list"

record codec =
  image_open :: "bytes \<Rightarrow> image option"
  rgb_pixels :: "image \<Rightarrow> nat list"
  jpeg_encode :: "image \<Rightarrow> bytes option"

datatype pil_call =
    Image_open path
  | Image_convert image string
  | Image_save image path string

record world =
  fs :: "path \<rightharpoonup> bytes"
  writable :: "path \<Rightarrow> bool"
  pil_calls :: "pil_call list"

datatype error =
    BadRequestKeyError string
  | FileNotFoundError path
  | PermissionError path
  | UnidentifiedImageError path
  | JpegWriteError string

datatype response =
    JsonResponse "(string \<times> string) list" nat
  | FileResponse path bytes bool

text \<open>The status line of a response: \<open>send_file\<close> answers 200.\<close>

fun status :: "response \<Rightarrow> nat" where
  "status (JsonResponse body code) = code"
| "status (FileResponse p b att) = 200"

subsection \<open>Path functions of the standard library\<close>

definition UPLOAD_FOLDER :: path where
  "UPLOAD_FOLDER = ''uploads''"

text \<open>
  \<open>posixpath.join(a, b)\<close> with one further component: an absolute \<open>b\<close> replaces
  \<open>a\<close>; otherwise a separator is put between them unless \<open>a\<close> is empty or ends in one.
\<close>

definition startswith_sep :: "string \<Rightarrow> bool" where
  "startswith_sep b = (case b of [] \<Rightarrow> False | c # cs \<Rightarrow> c = CHR ''/'')"

definition endswith_sep :: "string \<Rightarrow> bool" where
  "endswith_sep a = (case rev a of [] \<Rightarrow> False | c # cs \<Rightarrow> c = CHR ''/'')"

definition path_join :: "path \<Rightarrow> string \<Rightarrow> path" where
  "path_join a b =
     (if startswith_sep b then b
      else if a = [] \<or> endswith_sep a then a @ b
      else a @ ''/'' @ b)"

text \<open>\<open>str.rfind\<close> for one character: the last index where it occurs, or \<open>-1\<close>.\<close>

fun rfind :: "string \<Rightarrow> char \<Rightarrow> int" where
  "rfind [] c = - 1"
| "rfind (x # xs) c =
     (let r = rfind xs c in if 0 \<le> r then r + 1 else if x = c then 0 else - 1)"

text \<open>
  The loop of \<open>genericpath._splitext\<close> that skips leading dots: the first character
  between the separator and the last dot that is not a dot makes the split happen.
\<close>

function skip_dots :: "string \<Rightarrow> nat \<Rightarrow> nat \<Rightarrow> string \<times> string" where
  "skip_dots p filenameIndex dotIndex =
     (if filenameIndex < dotIndex then
        (if p ! filenameIndex \<noteq> CHR ''.'' then (take dotIndex p, drop dotIndex p)
         else skip_dots p (filenameIndex + 1) dotIndex)
      else (p, []))"
  by pat_completeness auto
termination
  by (relation "measure (\<lambda>(p, i, d). d - i)") auto

declare skip_dots.simps [simp del]

definition splitext :: "path \<Rightarrow> string \<times> string" where
  "splitext p =
     (let sepIndex = rfind p (CHR ''/'');
          dotIndex = rfind p (CHR ''.'')
      in if sepIndex < dotIndex then skip_dots p (nat (sepIndex + 1)) (nat dotIndex)
         else (p, []))"

text \<open>\<open>posixpath.basename\<close>: what follows the last separator.\<close>

definition basename :: "path \<Rightarrow> string" where
  "basename p = drop (nat (rfind p (CHR ''/'') + 1)) p"

text \<open>\<open>str.lower\<close> on ASCII: the 26 capital letters have an image, the rest stay.\<close>

definition lower_char :: "char \<Rightarrow> char" where
  "lower_char c =
     (case map_of (zip ''ABCDEFGHIJKLMNOPQRSTUVWXYZ'' ''abcdefghijklmnopqrstuvwxyz'') c of
        None \<Rightarrow> c
      | Some d \<Rightarrow> d)"

definition lower :: "string \<Rightarrow> string" where
  "lower s = map lower_char s"

subsection \<open>The effects: saving the upload, the image library, sending a file\<close>

text \<open>\<open>file.save(filepath)\<close>: opens the destination for writing and copies the bytes.\<close>

definition save_upload :: "file_storage \<Rightarrow> path \<Rightarrow> world \<Rightarrow> (error + unit) \<times> world" where
  "save_upload file dst w =
     (if writable w dst then (Inr (), w\<lparr>fs := (fs w)(dst \<mapsto> content file)\<rparr>)
      else (Inl (PermissionError dst), w))"

text \<open>\<open>Image.open(filepath)\<close>: reads the file at the path and identifies the image.\<close>

definition Image_open_call :: "codec \<Rightarrow> path \<Rightarrow> world \<Rightarrow> (error + image) \<times> world" where
  "Image_open_call c p w =
     (let w1 = w\<lparr>pil_calls := pil_calls w @ [Image_open p]\<rparr> in
      case fs w p of
        None \<Rightarrow> (Inl (FileNotFoundError p), w1)
      | Some b \<Rightarrow>
          (case image_open c b of
             None \<Rightarrow> (Inl (UnidentifiedImageError p), w1)
           | Some img \<Rightarrow> (Inr img, w1)))"

text \<open>\<open>img.convert("RGB")\<close>: a new image of mode RGB; the library computes its pixels.\<close>

definition Image_convert_call :: "codec \<Rightarrow> image \<Rightarrow> string \<Rightarrow> world \<Rightarrow> image \<times> world" where
  "Image_convert_call c img m w =
     (\<lparr>mode = m, pixels = rgb_pixels c img\<rparr>,
      w\<lparr>pil_calls := pil_calls w @ [Image_convert img m]\<rparr>)"

text \<open>
  \<open>img.save(output_path, "JPEG")\<close>: the destination is opened for writing, the image
  is encoded, and the bytes are written. A save that raises leaves the file table as it
  was.
\<close>

definition Image_save_call :: "codec \<Rightarrow> image \<Rightarrow> path \<Rightarrow> string \<Rightarrow> world \<Rightarrow> (error + unit) \<times> world" where
  "Image_save_call c img dst fmt w =
     (let w1 = w\<lparr>pil_calls := pil_calls w @ [Image_save img dst fmt]\<rparr> in
      if \<not> writable w dst then (Inl (PermissionError dst), w1)
      else
        (case jpeg_encode c img of
           None \<Rightarrow> (Inl (JpegWriteError (mode img)), w1)
         | Some b \<Rightarrow> (Inr (), w1\<lparr>fs := (fs w1)(dst \<mapsto> b)\<rparr>)))"

text \<open>\<open>send_file(path, as_attachment=True)\<close>: the bytes of the file, or a raise.\<close>

definition send_file :: "path \<Rightarrow> bool \<Rightarrow> world \<Rightarrow> (error + response) \<times> world" where
  "send_file p as_attachment w =
     (case fs w p of
        None \<Rightarrow> (Inl (FileNotFoundError p), w)
      | Some b \<Rightarrow> (Inr (FileResponse p b as_attachment), w))"

subsection \<open>The two functions of the module\<close>

definition convert_to_jpeg :: "codec \<Rightarrow> path \<Rightarrow> world \<Rightarrow> (error + path) \<times> world" where
  "convert_to_jpeg c filepath w =
     (case splitext filepath of
        (fname, ext) \<Rightarrow>
          (let output_path = fname @ ''.jpg'' in
           if lower ext = ''.png'' then
             (case Image_open_call c filepath w of
                (Inl e, w1) \<Rightarrow> (Inl e, w1)
              | (Inr img, w1) \<Rightarrow>
                  (case (if mode img = ''RGBA'' then Image_convert_call c img ''RGB'' w1
                         else (img, w1)) of
                     (img2, w2) \<Rightarrow>
                       (case Image_save_call c img2 output_path ''JPEG'' w2 of
                          (Inl e, w3) \<Rightarrow> (Inl e, w3)
                        | (Inr u, w3) \<Rightarrow> (Inr output_path, w3))))
           else (Inr output_path, w)))"

definition convert :: "codec \<Rightarrow> request \<Rightarrow> world \<Rightarrow> (error + response) \<times> world" where
  "convert c req w =
     (case files req ''file'' of
        None \<Rightarrow> (Inl (BadRequestKeyError ''file''), w)
      | Some file \<Rightarrow>
          if filename file = [] then
            (Inr (JsonResponse [(''error'', ''No file uploaded'')] 400), w)
          else
            (let filepath = path_join UPLOAD_FOLDER (filename file) in
             case save_upload file filepath w of
               (Inl e, w1) \<Rightarrow> (Inl e, w1)
             | (Inr u, w1) \<Rightarrow>
                 (case convert_to_jpeg c filepath w1 of
                    (Inl e, w2) \<Rightarrow> (Inl e, w2)
                  | (Inr output_file, w2) \<Rightarrow> send_file output_file True w2)))"

text \<open>
  What the framework answers for the outcome of a view function: the response's own
  status, the code 400 of a \<open>BadRequestKeyError\<close> (an HTTP exception), and 500 for
  any other exception.
\<close>

fun http_status :: "error + response \<Rightarrow> nat" where
  "http_status (Inr r) = status r"
| "http_status (Inl (BadRequestKeyError k)) = 400"
| "http_status (Inl e) = 500"

subsection \<open>Colour modes with an alpha channel\<close>

text \<open>The modes the specification names as carrying an alpha channel.\<close>

definition has_alpha :: "string \<Rightarrow> bool" where
  "has_alpha m = (m = ''RGBA'' \<or> m = ''LA'' \<or> m = ''PA'')"

subsection \<open>Concrete inputs\<close>

text \<open>
  A small image library for running the functions on concrete requests. The first byte
  of a file selects the colour mode and the rest is the pixel data; its JPEG writer
  accepts the modes RGB and L only and prefixes the data with the marker \<open>FF D8\<close>.
\<close>

definition toy_codec :: codec where
  "toy_codec =
     \<lparr>image_open = (\<lambda>b. case b of
          [] \<Rightarrow> None
        | t # px \<Rightarrow>
            if t = 0 then Some \<lparr>mode = ''RGB'', pixels = px\<rparr>
            else if t = 1 then Some \<lparr>mode = ''RGBA'', pixels = px\<rparr>
            else if t = 2 then Some \<lparr>mode = ''LA'', pixels = px\<rparr>
            else None),
      rgb_pixels = (\<lambda>img. pixels img),
      jpeg_encode = (\<lambda>img.
          if mode img = ''RGB'' \<or> mode img = ''L'' then Some (255 # 216 # pixels img)
          else None)\<rparr>"

definition empty_world :: world where
  "empty_world = \<lparr>fs = Map.empty, writable = (\<lambda>p. True), pil_calls = []\<rparr>"

definition upload :: "string \<Rightarrow> bytes \<Rightarrow> request" where
  "upload name b = \<lparr>files = [''file'' \<mapsto> \<lparr>filename = name, content = b\<rparr>]\<rparr>"

section \<open>The missing-upload guard\<close>

text \<open>
  C10. A request whose form has a field \<open>file\<close> with the empty string as filename is
  answered with status 400 and the body \<open>{"error": "No file uploaded"}\<close>, and the file
  table is left as it was.
\<close>

theorem convert_empty_filename:
  assumes "files req ''file'' = Some f" and "filename f = []"
  shows "convert c req w = (Inr (JsonResponse [(''error'', ''No file uploaded'')] 400), w)"
  using assms by (simp add: convert_def)

theorem convert_empty_filename_witness:
  "files (upload [] [1, 2, 3]) ''file'' = Some \<lparr>filename = [], content = [1, 2, 3]\<rparr>
   \<and> convert toy_codec (upload [] [1, 2, 3]) empty_world
       = (Inr (JsonResponse [(''error'', ''No file uploaded'')] 400), empty_world)
   \<and> http_status (fst (convert toy_codec (upload [] [1, 2, 3]) empty_world)) = 400"
proof -
  have h: "files (upload [] [1, 2, 3]) ''file'' = Some \<lparr>filename = [], content = [1, 2, 3]\<rparr>"
    by (simp add: upload_def)
  show ?thesis
    using h convert_empty_filename [OF h, of toy_codec empty_world] by simp
qed

text \<open>
  C1. A request whose form has no field \<open>file\<close>: the lookup \<open>request.files["file"]\<close>
  raises before the guard is reached, so the handler returns no body of its own; the
  world is left as it was. The framework answers the exception with status 400.
\<close>

theorem convert_missing_field:
  "convert c \<lparr>files = m(''file'' := None)\<rparr> w = (Inl (BadRequestKeyError ''file''), w)
   \<and> fst (convert c \<lparr>files = m(''file'' := None)\<rparr> w)
       \<noteq> Inr (JsonResponse [(''error'', ''No file uploaded'')] 400)
   \<and> http_status (fst (convert c \<lparr>files = m(''file'' := None)\<rparr> w)) = 400"
  by (simp add: convert_def)

end
